theory Spec2Isabelle
  imports Main "HOL-Library.Word"
begin

unbundle bit_operations_syntax

section \<open>Machine types and return codes\<close>

text \<open>
  \<open>ngx_uint_t\<close> and \<open>ngx_int_t\<close> are the pointer-sized integers of nginx; the model takes
  the LP64 width. A value of \<open>ngx_int_t\<close> is the same 64 bits read as two's complement
  (\<open>sint\<close>). \<open>u_int\<close> is the 32-bit unsigned int of the event helpers' \<open>flags\<close> argument.
  Return codes are kept as integers: \<open>NGX_OK\<close> is 0 and \<open>NGX_ERROR\<close> is -1.
\<close>

type_synonym ngx_uint_t = "64 word"
type_synonym ngx_int_t = "64 word"
type_synonym u_int = "32 word"

definition NGX_OK :: int where
  "NGX_OK = 0"

definition NGX_ERROR :: int where
  "NGX_ERROR = - 1"

section \<open>The event record (src/event/ngx\_event.h)\<close>

text \<open>
  The bit flags of \<open>struct ngx_event_s\<close> that the modelled code reads or writes, and a few
  of their neighbours. The pointers (\<open>data\<close>, \<open>log\<close>, the handler, the timer tree
  linkage) are not part of the model; the handler of a task's completion event is a
  parameter of the function that calls it.
\<close>

record ngx_event_t =
  oneshot :: bool
  active :: bool
  disabled :: bool
  posted :: bool
  ready :: bool
  complete :: bool
  eof :: bool
  timedout :: bool

subsection \<open>Capability flags of the bound reactor\<close>

definition NGX_USE_LEVEL_EVENT :: ngx_uint_t where
  "NGX_USE_LEVEL_EVENT = 0x00000001"

definition NGX_USE_ONESHOT_EVENT :: ngx_uint_t where
  "NGX_USE_ONESHOT_EVENT = 0x00000002"

definition NGX_USE_CLEAR_EVENT :: ngx_uint_t where
  "NGX_USE_CLEAR_EVENT = 0x00000004"

definition NGX_USE_AIO_EVENT :: ngx_uint_t where
  "NGX_USE_AIO_EVENT = 0x00000200"

subsection \<open>Values that depend on the platform\<close>

text \<open>
  \<open>NGX_READ_EVENT\<close>, \<open>NGX_WRITE_EVENT\<close>, \<open>NGX_CLEAR_EVENT\<close> and \<open>NGX_CLOSE_EVENT\<close> are
  defined per backend (\<open>EVFILT_READ\<close>, \<open>POLLIN\<close>, \<open>EPOLLIN\<close>, \<open>EV_EOF\<close>, ...), from
  system headers. The helpers take them as a parameter. \<open>NGX_LEVEL_EVENT\<close> is 0 in
  every branch of the header.
\<close>

record ngx_event_platform =
  NGX_READ_EVENT :: int
  NGX_WRITE_EVENT :: int
  NGX_CLEAR_EVENT :: u_int
  NGX_CLOSE_EVENT :: u_int

definition NGX_LEVEL_EVENT :: u_int where
  "NGX_LEVEL_EVENT = 0"

text \<open>The last branch of the header (select): no \<open>HAVE_*\<close> macro is defined.\<close>

definition select_platform :: ngx_event_platform where
  "select_platform =
     \<lparr>NGX_READ_EVENT = 0, NGX_WRITE_EVENT = 1, NGX_CLEAR_EVENT = 0, NGX_CLOSE_EVENT = 1\<rparr>"

subsection \<open>The reactor driver interface\<close>

text \<open>
  \<open>ngx_event_actions\<close> is a table of function pointers filled in by the backend; the
  helpers call \<open>add\<close> and \<open>del\<close> through it. A driver operation receives the event, the
  direction and the flags, may change the event and its own state \<open>'r\<close>, and returns
  \<open>NGX_OK\<close> or \<open>NGX_ERROR\<close>.
\<close>

record 'r ngx_event_actions_t =
  add :: "ngx_event_t \<Rightarrow> int \<Rightarrow> u_int \<Rightarrow> 'r \<Rightarrow> int \<times> ngx_event_t \<times> 'r"
  del :: "ngx_event_t \<Rightarrow> int \<Rightarrow> u_int \<Rightarrow> 'r \<Rightarrow> int \<times> ngx_event_t \<times> 'r"

definition ngx_add_event ::
  "'r ngx_event_actions_t \<Rightarrow> ngx_event_t \<Rightarrow> int \<Rightarrow> u_int \<Rightarrow> 'r \<Rightarrow> int \<times> ngx_event_t \<times> 'r" where
  "ngx_add_event ngx_event_actions = add ngx_event_actions"

definition ngx_del_event ::
  "'r ngx_event_actions_t \<Rightarrow> ngx_event_t \<Rightarrow> int \<Rightarrow> u_int \<Rightarrow> 'r \<Rightarrow> int \<times> ngx_event_t \<times> 'r" where
  "ngx_del_event ngx_event_actions = del ngx_event_actions"

subsection \<open>The readiness helpers\<close>

text \<open>
  Each helper takes the driver table, the platform values and the global
  \<open>ngx_event_flags\<close>, then the arguments of the source function and the driver state.
  It returns the source's return code, the event as the driver left it and the new
  driver state.
\<close>

definition ngx_handle_read_event ::
  "'r ngx_event_actions_t \<Rightarrow> ngx_event_platform \<Rightarrow> ngx_uint_t \<Rightarrow>
   ngx_event_t \<Rightarrow> u_int \<Rightarrow> 'r \<Rightarrow> int \<times> ngx_event_t \<times> 'r" where
  "ngx_handle_read_event acts pf ngx_event_flags rv flags r =
     (if ngx_event_flags AND NGX_USE_CLEAR_EVENT \<noteq> 0 then
        (if \<not> active rv \<and> \<not> ready rv then
           (case ngx_add_event acts rv (NGX_READ_EVENT pf) (NGX_CLEAR_EVENT pf) r of
              (rc, rv', r') \<Rightarrow>
                if rc = NGX_ERROR then (NGX_ERROR, rv', r') else (NGX_OK, rv', r'))
         else (NGX_OK, rv, r))
      else if ngx_event_flags AND NGX_USE_LEVEL_EVENT \<noteq> 0 then
        (if \<not> active rv \<and> \<not> ready rv then
           (case ngx_add_event acts rv (NGX_READ_EVENT pf) NGX_LEVEL_EVENT r of
              (rc, rv', r') \<Rightarrow>
                if rc = NGX_ERROR then (NGX_ERROR, rv', r') else (NGX_OK, rv', r'))
         else if active rv \<and> (ready rv \<or> flags AND NGX_CLOSE_EVENT pf \<noteq> 0) then
           (case ngx_del_event acts rv (NGX_READ_EVENT pf) flags r of
              (rc, rv', r') \<Rightarrow>
                if rc = NGX_ERROR then (NGX_ERROR, rv', r') else (NGX_OK, rv', r'))
         else (NGX_OK, rv, r))
      else (NGX_OK, rv, r))"

definition ngx_handle_level_read_event ::
  "'r ngx_event_actions_t \<Rightarrow> ngx_event_platform \<Rightarrow> ngx_uint_t \<Rightarrow>
   ngx_event_t \<Rightarrow> 'r \<Rightarrow> int \<times> ngx_event_t \<times> 'r" where
  "ngx_handle_level_read_event acts pf ngx_event_flags rv r =
     (if ngx_event_flags AND NGX_USE_LEVEL_EVENT \<noteq> 0 then
        (if \<not> active rv \<and> \<not> ready rv then
           (case ngx_add_event acts rv (NGX_READ_EVENT pf) NGX_LEVEL_EVENT r of
              (rc, rv', r') \<Rightarrow>
                if rc = NGX_ERROR then (NGX_ERROR, rv', r') else (NGX_OK, rv', r'))
         else if active rv \<and> ready rv then
           (case ngx_del_event acts rv (NGX_READ_EVENT pf) 0 r of
              (rc, rv', r') \<Rightarrow>
                if rc = NGX_ERROR then (NGX_ERROR, rv', r') else (NGX_OK, rv', r'))
         else (NGX_OK, rv, r))
      else (NGX_OK, rv, r))"

definition ngx_handle_write_event ::
  "'r ngx_event_actions_t \<Rightarrow> ngx_event_platform \<Rightarrow> ngx_uint_t \<Rightarrow>
   ngx_event_t \<Rightarrow> u_int \<Rightarrow> 'r \<Rightarrow> int \<times> ngx_event_t \<times> 'r" where
  "ngx_handle_write_event acts pf ngx_event_flags wev flags r =
     (if ngx_event_flags AND NGX_USE_CLEAR_EVENT \<noteq> 0 then
        (if \<not> active wev \<and> \<not> ready wev then
           (case ngx_add_event acts wev (NGX_WRITE_EVENT pf) (NGX_CLEAR_EVENT pf OR flags) r of
              (rc, wev', r') \<Rightarrow>
                if rc = NGX_ERROR then (NGX_ERROR, wev', r') else (NGX_OK, wev', r'))
         else (NGX_OK, wev, r))
      else if ngx_event_flags AND NGX_USE_LEVEL_EVENT \<noteq> 0 then
        (if \<not> active wev \<and> \<not> ready wev then
           (case ngx_add_event acts wev (NGX_WRITE_EVENT pf) NGX_LEVEL_EVENT r of
              (rc, wev', r') \<Rightarrow>
                if rc = NGX_ERROR then (NGX_ERROR, wev', r') else (NGX_OK, wev', r'))
         else if active wev \<and> ready wev then
           (case ngx_del_event acts wev (NGX_WRITE_EVENT pf) 0 r of
              (rc, wev', r') \<Rightarrow>
                if rc = NGX_ERROR then (NGX_ERROR, wev', r') else (NGX_OK, wev', r'))
         else (NGX_OK, wev, r))
      else (NGX_OK, wev, r))"

definition ngx_handle_level_write_event ::
  "'r ngx_event_actions_t \<Rightarrow> ngx_event_platform \<Rightarrow> ngx_uint_t \<Rightarrow>
   ngx_event_t \<Rightarrow> 'r \<Rightarrow> int \<times> ngx_event_t \<times> 'r" where
  "ngx_handle_level_write_event acts pf ngx_event_flags wev r =
     (if ngx_event_flags AND NGX_USE_LEVEL_EVENT \<noteq> 0 then
        (if \<not> active wev \<and> \<not> ready wev then
           (case ngx_add_event acts wev (NGX_WRITE_EVENT pf) NGX_LEVEL_EVENT r of
              (rc, wev', r') \<Rightarrow>
                if rc = NGX_ERROR then (NGX_ERROR, wev', r') else (NGX_OK, wev', r'))
         else if active wev \<and> ready wev then
           (case ngx_del_event acts wev (NGX_WRITE_EVENT pf) 0 r of
              (rc, wev', r') \<Rightarrow>
                if rc = NGX_ERROR then (NGX_ERROR, wev', r') else (NGX_OK, wev', r'))
         else (NGX_OK, wev, r))
      else (NGX_OK, wev, r))"

subsection \<open>A reactor that records what it is asked\<close>

text \<open>
  Modelled from the spec: the reactor drivers behind \<open>ngx_event_actions\<close> (select, poll,
  kqueue, ...) are not under src/. The spec's driver holds an event exactly while its
  \<open>active\<close> bit is set: a successful \<open>add\<close> sets \<open>active\<close>, a successful \<open>del\<close> clears
  it, and either may fail with \<open>NGX_ERROR\<close>. This driver does that and appends every
  call it receives, with the event as it was passed, to \<open>calls\<close>; \<open>failing\<close> makes every
  operation return \<open>NGX_ERROR\<close> and leave the event alone.
\<close>

datatype reactor_op = Add | Del

type_synonym reactor_call = "reactor_op \<times> ngx_event_t \<times> int \<times> u_int"

record reactor =
  calls :: "reactor_call list"
  failing :: bool

definition recording_add ::
  "ngx_event_t \<Rightarrow> int \<Rightarrow> u_int \<Rightarrow> reactor \<Rightarrow> int \<times> ngx_event_t \<times> reactor" where
  "recording_add ev event flags r =
     (if failing r then (NGX_ERROR, ev, r\<lparr>calls := calls r @ [(Add, ev, event, flags)]\<rparr>)
      else (NGX_OK, ev\<lparr>active := True\<rparr>, r\<lparr>calls := calls r @ [(Add, ev, event, flags)]\<rparr>))"

definition recording_del ::
  "ngx_event_t \<Rightarrow> int \<Rightarrow> u_int \<Rightarrow> reactor \<Rightarrow> int \<times> ngx_event_t \<times> reactor" where
  "recording_del ev event flags r =
     (if failing r then (NGX_ERROR, ev, r\<lparr>calls := calls r @ [(Del, ev, event, flags)]\<rparr>)
      else (NGX_OK, ev\<lparr>active := False\<rparr>, r\<lparr>calls := calls r @ [(Del, ev, event, flags)]\<rparr>))"

definition recording_actions :: "reactor ngx_event_actions_t" where
  "recording_actions = \<lparr>add = recording_add, del = recording_del\<rparr>"

definition idle_reactor :: reactor where
  "idle_reactor = \<lparr>calls = [], failing = False\<rparr>"

text \<open>An event as \<open>ngx_pcalloc\<close> leaves it: every bit clear.\<close>

definition zero_event :: ngx_event_t where
  "zero_event =
     \<lparr>oneshot = False, active = False, disabled = False, posted = False, ready = False,
      complete = False, eof = False, timedout = False\<rparr>"

text \<open>
  The consumer's side of the scenarios of the spec: before each call it sets the event's
  \<open>ready\<close> bit to the next value of the list, then calls \<open>ngx_handle_read_event\<close>; the
  event and the driver state are threaded through the calls.
\<close>

fun handle_read_seq ::
  "'r ngx_event_actions_t \<Rightarrow> ngx_event_platform \<Rightarrow> ngx_uint_t \<Rightarrow> u_int \<Rightarrow>
   bool list \<Rightarrow> ngx_event_t \<Rightarrow> 'r \<Rightarrow> ngx_event_t \<times> 'r" where
  "handle_read_seq acts pf gf flags [] ev r = (ev, r)"
| "handle_read_seq acts pf gf flags (b # bs) ev r =
     (case ngx_handle_read_event acts pf gf (ev\<lparr>ready := b\<rparr>) flags r of
        (rc, ev', r') \<Rightarrow> handle_read_seq acts pf gf flags bs ev' r')"

section \<open>The thread pool (ngx\_thread\_pool.c)\<close>

subsection \<open>Tasks, queues, the pool\<close>

text \<open>
  A task pointer is a natural number, \<open>NULL\<close> is \<open>None\<close>. The two queues keep in
  \<open>last_p\<close> the address of a link cell: \<open>&tp->in.first\<close>, \<open>&tp->out.first\<close> or
  \<open>&task->next\<close> of some task; a zeroed \<open>last_p\<close> is \<open>None\<close>.
\<close>

datatype cell = In_first | Out_first | Task_next nat

text \<open>
  Modelled from the spec: \<open>ngx_thread_pool_task_t\<close> is declared in ngx\_thread\_pool.h,
  which is not under src/. The spec's task has a \<open>next\<close> link, a numeric \<open>id\<close> assigned
  on post, a handler with its \<open>ctx\<close>, and a completion \<open>event\<close>. The handler and \<open>ctx\<close>
  are opaque to the functions modelled here. The fields \<open>next\<close> and \<open>id\<close> are
  \<open>next_f\<close> and \<open>id_f\<close>.
\<close>

record ngx_thread_pool_task_t =
  next_f :: "nat option"
  id_f :: ngx_uint_t
  event :: ngx_event_t

record ngx_thread_pool_queue_t =
  first :: "nat option"
  last_p :: "cell option"

text \<open>
  Modelled from the spec: ngx\_semaphore.h is not under src/. The spec's pool has a
  kernel-provided counting semaphore: its state is the count; \<open>ngx_sem_getvalue\<close> reads
  it and \<open>ngx_sem_post\<close> increments it, and each returns \<open>NGX_OK\<close> or fails. The two
  operations are parameters of \<open>ngx_thread_pool_task_post\<close>; \<open>counting_sem\<close> is the
  semaphore that never fails.
\<close>

type_synonym ngx_sem_t = int

record ngx_sem_ops =
  ngx_sem_getvalue :: "ngx_sem_t \<Rightarrow> int \<times> ngx_int_t"
  ngx_sem_post :: "ngx_sem_t \<Rightarrow> int \<times> ngx_sem_t"

definition counting_sem :: ngx_sem_ops where
  "counting_sem =
     \<lparr>ngx_sem_getvalue = (\<lambda>c. (NGX_OK, word_of_int c)),
      ngx_sem_post = (\<lambda>c. (NGX_OK, c + 1))\<rparr>"

text \<open>
  \<open>struct ngx_thread_pool_s\<close> without \<open>notify\<close>, \<open>log\<close> and \<open>pool\<close>; \<open>in\<close> and \<open>out\<close>
  are \<open>in_q\<close> and \<open>out_q\<close>, \<open>file\<close> and \<open>line\<close> are \<open>file_f\<close> and \<open>line_f\<close>.
\<close>

record ngx_thread_pool_t =
  sem :: ngx_sem_t
  task_id :: ngx_uint_t
  in_q :: ngx_thread_pool_queue_t
  out_q :: ngx_thread_pool_queue_t
  name :: string
  threads :: ngx_uint_t
  max_queue :: ngx_uint_t
  file_f :: string
  line_f :: ngx_uint_t

text \<open>
  The memory the run-time functions work on: the pool \<open>tp\<close>, the tasks by address, and
  \<open>user\<close>, whatever else the completion handlers own.
\<close>

record 'u memory =
  tp :: ngx_thread_pool_t
  tasks :: "nat \<Rightarrow> ngx_thread_pool_task_t"
  user :: 'u

subsection \<open>Assignments\<close>

definition set_in_first :: "nat option \<Rightarrow> 'u memory \<Rightarrow> 'u memory" where
  "set_in_first v m = m\<lparr>tp := (tp m)\<lparr>in_q := (in_q (tp m))\<lparr>first := v\<rparr>\<rparr>\<rparr>"

definition set_in_last_p :: "cell option \<Rightarrow> 'u memory \<Rightarrow> 'u memory" where
  "set_in_last_p v m = m\<lparr>tp := (tp m)\<lparr>in_q := (in_q (tp m))\<lparr>last_p := v\<rparr>\<rparr>\<rparr>"

definition set_out_first :: "nat option \<Rightarrow> 'u memory \<Rightarrow> 'u memory" where
  "set_out_first v m = m\<lparr>tp := (tp m)\<lparr>out_q := (out_q (tp m))\<lparr>first := v\<rparr>\<rparr>\<rparr>"

definition set_out_last_p :: "cell option \<Rightarrow> 'u memory \<Rightarrow> 'u memory" where
  "set_out_last_p v m = m\<lparr>tp := (tp m)\<lparr>out_q := (out_q (tp m))\<lparr>last_p := v\<rparr>\<rparr>\<rparr>"

definition set_task_next :: "nat \<Rightarrow> nat option \<Rightarrow> 'u memory \<Rightarrow> 'u memory" where
  "set_task_next task v m = m\<lparr>tasks := (tasks m)(task := (tasks m task)\<lparr>next_f := v\<rparr>)\<rparr>"

definition set_task_id :: "nat \<Rightarrow> ngx_uint_t \<Rightarrow> 'u memory \<Rightarrow> 'u memory" where
  "set_task_id task v m = m\<lparr>tasks := (tasks m)(task := (tasks m task)\<lparr>id_f := v\<rparr>)\<rparr>"

definition set_task_active :: "nat \<Rightarrow> bool \<Rightarrow> 'u memory \<Rightarrow> 'u memory" where
  "set_task_active task v m =
     m\<lparr>tasks := (tasks m)(task := (tasks m task)\<lparr>event := (event (tasks m task))\<lparr>active := v\<rparr>\<rparr>)\<rparr>"

definition set_task_complete :: "nat \<Rightarrow> bool \<Rightarrow> 'u memory \<Rightarrow> 'u memory" where
  "set_task_complete task v m =
     m\<lparr>tasks := (tasks m)(task := (tasks m task)\<lparr>event := (event (tasks m task))\<lparr>complete := v\<rparr>\<rparr>)\<rparr>"

text \<open>
  \<open>*(ngx_thread_pool_task_t **) lp = task\<close>: the store goes to whichever link cell
  \<open>lp\<close> addresses. A store through a null \<open>lp\<close> is a memory fault, \<open>None\<close>.
\<close>

fun store_link :: "cell option \<Rightarrow> nat option \<Rightarrow> 'u memory \<Rightarrow> 'u memory option" where
  "store_link None v m = None"
| "store_link (Some In_first) v m = Some (set_in_first v m)"
| "store_link (Some Out_first) v m = Some (set_out_first v m)"
| "store_link (Some (Task_next t)) v m = Some (set_task_next t v m)"

text \<open>
  Modelled from the spec: ngx\_atomic.h is not under src/. \<open>ngx_atomic_cmp_set(lock,
  old, set)\<close> is the compare-and-swap of the spec: if the word holds \<open>old\<close> it is
  replaced by \<open>set\<close> and the result is true, otherwise it is left alone and the result
  is false. The first argument here is the word's current content; the result carries
  its new content.
\<close>

definition ngx_atomic_cmp_set :: "'a \<Rightarrow> 'a \<Rightarrow> 'a \<Rightarrow> bool \<times> 'a" where
  "ngx_atomic_cmp_set cur old new = (if cur = old then (True, new) else (False, cur))"

subsection \<open>ngx\_thread\_pool\_task\_post\<close>

text \<open>
  The function runs while other threads run. What they do between the load of
  \<open>tp->in.last_p\<close> and the compare-and-swap decides which branch is taken, so the model
  takes it as the parameter \<open>others\<close>, applied to the memory at that point (the identity
  when nobody interferes). The result is the return code with the memory, or \<open>None\<close>
  for a store through a null pointer.
\<close>

definition ngx_thread_pool_task_post ::
  "ngx_sem_ops \<Rightarrow> ('u memory \<Rightarrow> 'u memory) \<Rightarrow> 'u memory \<Rightarrow> nat \<Rightarrow> (int \<times> 'u memory) option" where
  "ngx_thread_pool_task_post so others m task =
     (if active (event (tasks m task)) then Some (NGX_ERROR, m)
      else case ngx_sem_getvalue so (sem (tp m)) of
        (rc, count) \<Rightarrow>
          if rc \<noteq> NGX_OK then Some (NGX_ERROR, m)
          else if sint (max_queue (tp m)) \<le> sint count then Some (NGX_ERROR, m)
          else
            (let m1 = set_task_active task True m;
                 m2 = set_task_id task (task_id (tp m1)) m1;
                 m3 = m2\<lparr>tp := (tp m2)\<lparr>task_id := task_id (tp m2) + 1\<rparr>\<rparr>;
                 m4 = set_task_next task None m3;
                 lp = last_p (in_q (tp m4));
                 m5 = others m4
             in case
                  (if lp = Some In_first then
                     Some (set_in_last_p (Some (Task_next task)) (set_in_first (Some task) m5))
                   else
                     case ngx_atomic_cmp_set (last_p (in_q (tp m5))) lp (Some (Task_next task)) of
                       (swapped, v) \<Rightarrow>
                         if \<not> swapped then
                           Some (set_in_last_p (Some (Task_next task))
                                   (set_in_first (Some task) (set_in_last_p v m5)))
                         else store_link lp (Some task) (set_in_last_p v m5))
                of None \<Rightarrow> None
                 | Some m6 \<Rightarrow>
                     (case ngx_sem_post so (sem (tp m6)) of
                        (rc', sem') \<Rightarrow>
                          if rc' \<noteq> NGX_OK then Some (NGX_ERROR, m6\<lparr>tp := (tp m6)\<lparr>sem := sem'\<rparr>\<rparr>)
                          else Some (NGX_OK, m6\<lparr>tp := (tp m6)\<lparr>sem := sem'\<rparr>\<rparr>))))"

subsection \<open>The completion enqueue of ngx\_thread\_pool\_cycle\<close>

text \<open>
  Lines 332 to 341 of the worker loop: \<open>task->next = NULL\<close>, then the loop
  \<open>do { lp = tp->out.last_p; } while (!ngx_atomic_cmp_set(&tp->out.last_p, lp,
  &task->next))\<close>, then \<open>*lp = task\<close>. Each element of \<open>others\<close> is what the other
  threads do between the load and the compare-and-swap of one iteration; when the list
  is used up nobody interferes and the swap succeeds. The loop returns \<open>lp\<close> and the
  memory.
\<close>

fun ngx_thread_pool_cycle_swap ::
  "('u memory \<Rightarrow> 'u memory) list \<Rightarrow> nat \<Rightarrow> 'u memory \<Rightarrow> cell option \<times> 'u memory" where
  "ngx_thread_pool_cycle_swap [] task m =
     (let lp = last_p (out_q (tp m))
      in case ngx_atomic_cmp_set (last_p (out_q (tp m))) lp (Some (Task_next task)) of
           (swapped, v) \<Rightarrow> (lp, set_out_last_p v m))"
| "ngx_thread_pool_cycle_swap (other # others) task m =
     (let lp = last_p (out_q (tp m));
          m1 = other m
      in case ngx_atomic_cmp_set (last_p (out_q (tp m1))) lp (Some (Task_next task)) of
           (swapped, v) \<Rightarrow>
             if swapped then (lp, set_out_last_p v m1)
             else ngx_thread_pool_cycle_swap others task (set_out_last_p v m1))"

definition ngx_thread_pool_cycle_complete ::
  "('u memory \<Rightarrow> 'u memory) list \<Rightarrow> 'u memory \<Rightarrow> nat \<Rightarrow> 'u memory option" where
  "ngx_thread_pool_cycle_complete others m task =
     (case ngx_thread_pool_cycle_swap others task (set_task_next task None m) of
        (lp, m1) \<Rightarrow> store_link lp (Some task) m1)"

subsection \<open>ngx\_thread\_pool\_handler\<close>

text \<open>
  The drain of the completion queue on the reactor thread, run with no worker appending
  meanwhile. \<open>event->handler(event)\<close> is a call through a function pointer:
  \<open>handler task\<close> is what the handler stored in that task's event does to the memory.
  The loop ends only at an empty queue or at the tail check, so a run that never ends
  is \<open>None\<close>.
\<close>

partial_function (option) ngx_thread_pool_handler ::
  "(nat \<Rightarrow> 'u memory \<Rightarrow> 'u memory) \<Rightarrow> 'u memory \<Rightarrow> 'u memory option" where
  "ngx_thread_pool_handler handler m =
     (case first (out_q (tp m)) of
        None \<Rightarrow> Some m
      | Some task \<Rightarrow>
          (let m1 = set_out_first (next_f (tasks m task)) m
           in if first (out_q (tp m1)) = None
                 \<and> (last_p (out_q (tp m1)) \<noteq> Some (Task_next task)
                    \<or> \<not> fst (ngx_atomic_cmp_set (last_p (out_q (tp m1)))
                                 (Some (Task_next task)) (Some Out_first)))
              then Some (set_out_first (Some task) m1)
              else
                (let m2 = (if first (out_q (tp m1)) = None
                           then set_out_last_p
                                  (snd (ngx_atomic_cmp_set (last_p (out_q (tp m1)))
                                          (Some (Task_next task)) (Some Out_first))) m1
                           else m1);
                     m3 = set_task_complete task True m2;
                     m4 = set_task_active task False m3
                 in ngx_thread_pool_handler handler (handler task m4))))"

text \<open>
  A completion handler that only notes, in \<open>user\<close>, which task it was called for and
  the task's event as it found it.
\<close>

definition noting_handler ::
  "nat \<Rightarrow> (nat \<times> ngx_event_t) list memory \<Rightarrow> (nat \<times> ngx_event_t) list memory" where
  "noting_handler task m = m\<lparr>user := user m @ [(task, event (tasks m task))]\<rparr>"

text \<open>
  The tasks of a queue, in order: \<open>chain nx p ts\<close> says that following the \<open>next\<close>
  links \<open>nx\<close> from the pointer \<open>p\<close> visits exactly \<open>ts\<close> and then \<open>NULL\<close>.
\<close>

fun chain :: "(nat \<Rightarrow> nat option) \<Rightarrow> nat option \<Rightarrow> nat list \<Rightarrow> bool" where
  "chain nx p [] = (p = None)"
| "chain nx p (t # ts) = (p = Some t \<and> chain nx (nx t) ts)"

definition out_queue_holds :: "'u memory \<Rightarrow> nat list \<Rightarrow> bool" where
  "out_queue_holds m ts =
     (distinct ts
      \<and> chain (\<lambda>t. next_f (tasks m t)) (first (out_q (tp m))) ts
      \<and> last_p (out_q (tp m)) = Some (if ts = [] then Out_first else Task_next (last ts)))"

subsection \<open>Zeroed and started pools\<close>

text \<open>What \<open>ngx_pcalloc\<close> returns: every field zero, every pointer null.\<close>

definition zero_task :: ngx_thread_pool_task_t where
  "zero_task = \<lparr>next_f = None, id_f = 0, event = zero_event\<rparr>"

definition zero_pool :: ngx_thread_pool_t where
  "zero_pool =
     \<lparr>sem = 0, task_id = 0,
      in_q = \<lparr>first = None, last_p = None\<rparr>, out_q = \<lparr>first = None, last_p = None\<rparr>,
      name = [], threads = 0, max_queue = 0, file_f = [], line_f = 0\<rparr>"

text \<open>
  Lines 117 to 125 of \<open>ngx_thread_pool_init\<close>, when \<open>ngx_sem_init(&tp->sem, 0, log)\<close>
  succeeds: the semaphore at 0 and both queues empty, each \<open>last_p\<close> at its own
  \<open>first\<close>.
\<close>

definition ngx_thread_pool_init_queues :: "ngx_thread_pool_t \<Rightarrow> ngx_thread_pool_t" where
  "ngx_thread_pool_init_queues p =
     p\<lparr>sem := 0,
       in_q := \<lparr>first = None, last_p = Some In_first\<rparr>,
       out_q := \<lparr>first = None, last_p = Some Out_first\<rparr>\<rparr>"

text \<open>
  A started pool with the given queue cap and semaphore count, all tasks zeroed, for the
  concrete runs below.
\<close>

definition started_memory :: "ngx_uint_t \<Rightarrow> ngx_sem_t \<Rightarrow> 'u \<Rightarrow> 'u memory" where
  "started_memory cap c u =
     \<lparr>tp = (ngx_thread_pool_init_queues (zero_pool\<lparr>threads := 2, max_queue := cap\<rparr>))\<lparr>sem := c\<rparr>,
      tasks = (\<lambda>t. zero_task), user = u\<rparr>"

subsection \<open>Comparing the two enqueues\<close>

text \<open>
  The intake enqueue works on \<open>tp->in\<close>, the completion enqueue on \<open>tp->out\<close>. To
  compare them, \<open>swap_queues\<close> exchanges the two queues of a memory, together with the
  two addresses \<open>&tp->in.first\<close> and \<open>&tp->out.first\<close>; \<open>queue_state\<close> is what an
  enqueue is about: both queues and every task's \<open>next\<close> link.
\<close>

fun swap_cell :: "cell \<Rightarrow> cell" where
  "swap_cell In_first = Out_first"
| "swap_cell Out_first = In_first"
| "swap_cell (Task_next t) = Task_next t"

definition swap_queue :: "ngx_thread_pool_queue_t \<Rightarrow> ngx_thread_pool_queue_t" where
  "swap_queue q = q\<lparr>last_p := map_option swap_cell (last_p q)\<rparr>"

definition swap_queues :: "'u memory \<Rightarrow> 'u memory" where
  "swap_queues m =
     m\<lparr>tp := (tp m)\<lparr>in_q := swap_queue (out_q (tp m)), out_q := swap_queue (in_q (tp m))\<rparr>\<rparr>"

definition queue_state ::
  "'u memory \<Rightarrow> ngx_thread_pool_queue_t \<times> ngx_thread_pool_queue_t \<times> (nat \<Rightarrow> nat option)" where
  "queue_state m = (in_q (tp m), out_q (tp m), (\<lambda>t. next_f (tasks m t)))"

definition posted_state ::
  "(int \<times> 'u memory) option \<Rightarrow>
   (ngx_thread_pool_queue_t \<times> ngx_thread_pool_queue_t \<times> (nat \<Rightarrow> nat option)) option" where
  "posted_state r = map_option (\<lambda>(rc, m). queue_state m) r"

definition completed_state ::
  "'u memory option \<Rightarrow>
   (ngx_thread_pool_queue_t \<times> ngx_thread_pool_queue_t \<times> (nat \<Rightarrow> nat option)) option" where
  "completed_state r = map_option (\<lambda>m. queue_state (swap_queues m)) r"








section \<open>The configuration directives (ngx\_thread\_pool.c)\<close>

text \<open>
  Modelled from the spec: ngx\_string.h is not under src/. Pool names and directive
  words are byte strings; \<open>ngx_strncmp\<close> is the C library's \<open>strncmp\<close>. A string is the
  list of its bytes, and the byte after its last one is the terminating NUL, as the
  configuration parser leaves every word and as a string literal has it.
\<close>

definition byte_at :: "string \<Rightarrow> int" where
  "byte_at s = (case s of [] \<Rightarrow> 0 | c # cs \<Rightarrow> of_char c)"

fun ngx_strncmp :: "string \<Rightarrow> string \<Rightarrow> nat \<Rightarrow> int" where
  "ngx_strncmp s1 s2 0 = 0"
| "ngx_strncmp s1 s2 (Suc n) =
     (if byte_at s1 \<noteq> byte_at s2 then byte_at s1 - byte_at s2
      else if byte_at s1 = 0 then 0
      else ngx_strncmp (tl s1) (tl s2) n)"

definition ngx_thread_pool_default :: string where
  "ngx_thread_pool_default = ''default''"

text \<open>
  \<open>NGX_CONF_OK\<close> or \<open>NGX_CONF_ERROR\<close>, the latter with the message logged at
  \<open>NGX_LOG_EMERG\<close> before the return (none when an allocation failed).
\<close>

datatype conf_log =
  nothing_logged
  | duplicate_thread_pool
  | invalid_threads_value
  | invalid_max_queue_value
  | must_have_threads_parameter
  | unknown_thread_pool

datatype conf_ret = NGX_CONF_OK | NGX_CONF_ERROR conf_log

text \<open>
  \<open>ngx_thread_pool_conf_t\<close>: the array of pool pointers is the list of the pools, and a
  pool pointer is an index into it. Of \<open>ngx_conf_t\<close> the model keeps the words of the
  directive, the name and line of the configuration file, and whether the pool allocator
  still has memory.
\<close>

record ngx_thread_pool_conf_t =
  pools :: "ngx_thread_pool_t list"

record ngx_conf_t =
  args :: "string list"
  conf_file_name :: string
  conf_file_line :: ngx_uint_t
  has_memory :: bool

fun ngx_thread_pool_get_from ::
  "ngx_thread_pool_t list \<Rightarrow> nat \<Rightarrow> string \<Rightarrow> nat option" where
  "ngx_thread_pool_get_from [] i nm = None"
| "ngx_thread_pool_get_from (p # ps) i nm =
     (if length (name p) = length nm \<and> ngx_strncmp (name p) nm (length nm) = 0
      then Some i
      else ngx_thread_pool_get_from ps (Suc i) nm)"

definition ngx_thread_pool_get :: "ngx_thread_pool_conf_t \<Rightarrow> string \<Rightarrow> nat option" where
  "ngx_thread_pool_get tcf nm = ngx_thread_pool_get_from (pools tcf) 0 nm"

definition ngx_thread_pool_add ::
  "ngx_conf_t \<Rightarrow> ngx_thread_pool_conf_t \<Rightarrow> string option \<Rightarrow>
   nat option \<times> ngx_thread_pool_conf_t" where
  "ngx_thread_pool_add cf tcf name_arg =
     (let nm = (case name_arg of None \<Rightarrow> ngx_thread_pool_default | Some n \<Rightarrow> n)
      in case ngx_thread_pool_get tcf nm of
           Some i \<Rightarrow> (Some i, tcf)
         | None \<Rightarrow>
             if \<not> has_memory cf then (None, tcf)
             else (Some (length (pools tcf)),
                   tcf\<lparr>pools := pools tcf
                     @ [zero_pool\<lparr>name := nm, file_f := conf_file_name cf,
                                  line_f := conf_file_line cf\<rparr>]\<rparr>))"

text \<open>
  The loop of \<open>ngx_thread_pool\<close> over \<open>value[2]\<close>, \<open>value[3]\<close>, ... on the pool \<open>tp\<close>.
  \<open>ngx_atoi\<close> (ngx\_string.c, not under src/) is the parameter \<open>atoi\<close>: it is given the
  bytes after the prefix and returns an \<open>ngx_int_t\<close>.
\<close>

fun ngx_thread_pool_values ::
  "(string \<Rightarrow> ngx_int_t) \<Rightarrow> string list \<Rightarrow> ngx_thread_pool_t \<Rightarrow> conf_ret \<times> ngx_thread_pool_t" where
  "ngx_thread_pool_values atoi [] p = (NGX_CONF_OK, p)"
| "ngx_thread_pool_values atoi (v # vs) p =
     (if ngx_strncmp v ''threads='' 8 = 0 then
        (let p1 = p\<lparr>threads := atoi (drop 8 v)\<rparr>
         in if threads p1 = word_of_int NGX_ERROR \<or> threads p1 = 0
            then (NGX_CONF_ERROR invalid_threads_value, p1)
            else ngx_thread_pool_values atoi vs p1)
      else if ngx_strncmp v ''max_queue='' 10 = 0 then
        (let p1 = p\<lparr>max_queue := atoi (drop 10 v)\<rparr>
         in if max_queue p1 = word_of_int NGX_ERROR
            then (NGX_CONF_ERROR invalid_max_queue_value, p1)
            else ngx_thread_pool_values atoi vs p1)
      else ngx_thread_pool_values atoi vs p)"

text \<open>
  The directive handler. The command table gives \<open>NGX_CONF_TAKE23\<close>: the parser calls
  the handler with the directive word, the pool name and one or two more words, and
  rejects any other count itself; \<open>None\<close> is "not called".
\<close>

definition ngx_thread_pool ::
  "(string \<Rightarrow> ngx_int_t) \<Rightarrow> ngx_conf_t \<Rightarrow> ngx_thread_pool_conf_t \<Rightarrow>
   (conf_ret \<times> ngx_thread_pool_conf_t) option" where
  "ngx_thread_pool atoi cf tcf =
     (if length (args cf) \<noteq> 3 \<and> length (args cf) \<noteq> 4 then None
      else case ngx_thread_pool_add cf tcf (Some (args cf ! 1)) of
        (None, tcf1) \<Rightarrow> Some (NGX_CONF_ERROR nothing_logged, tcf1)
      | (Some i, tcf1) \<Rightarrow>
          if threads (pools tcf1 ! i) \<noteq> 0 then Some (NGX_CONF_ERROR duplicate_thread_pool, tcf1)
          else
            (case ngx_thread_pool_values atoi (drop 2 (args cf))
                    ((pools tcf1 ! i)\<lparr>max_queue := 65536\<rparr>) of
               (NGX_CONF_ERROR e, p) \<Rightarrow>
                 Some (NGX_CONF_ERROR e, tcf1\<lparr>pools := (pools tcf1)[i := p]\<rparr>)
             | (NGX_CONF_OK, p) \<Rightarrow>
                 if threads p = 0
                 then Some (NGX_CONF_ERROR must_have_threads_parameter,
                            tcf1\<lparr>pools := (pools tcf1)[i := p]\<rparr>)
                 else Some (NGX_CONF_OK, tcf1\<lparr>pools := (pools tcf1)[i := p]\<rparr>)))"

text \<open>
  \<open>ngx_thread_pool_init_conf\<close>: the loop over the pools, from the first to the last,
  stopping at the first pool that has no threads and is not the default one.
\<close>

fun ngx_thread_pool_init_conf_loop ::
  "ngx_thread_pool_t list \<Rightarrow> conf_ret \<times> ngx_thread_pool_t list" where
  "ngx_thread_pool_init_conf_loop [] = (NGX_CONF_OK, [])"
| "ngx_thread_pool_init_conf_loop (p # ps) =
     (if threads p \<noteq> 0 then
        (case ngx_thread_pool_init_conf_loop ps of (ret, ps') \<Rightarrow> (ret, p # ps'))
      else if length (name p) = length ngx_thread_pool_default
              \<and> ngx_strncmp (name p) ngx_thread_pool_default (length ngx_thread_pool_default) = 0
      then
        (case ngx_thread_pool_init_conf_loop ps of
           (ret, ps') \<Rightarrow> (ret, p\<lparr>threads := 32, max_queue := 65536\<rparr> # ps'))
      else (NGX_CONF_ERROR unknown_thread_pool, p # ps))"

definition ngx_thread_pool_init_conf ::
  "ngx_thread_pool_conf_t \<Rightarrow> conf_ret \<times> ngx_thread_pool_conf_t" where
  "ngx_thread_pool_init_conf tcf =
     (case ngx_thread_pool_init_conf_loop (pools tcf) of
        (ret, ps) \<Rightarrow> (ret, tcf\<lparr>pools := ps\<rparr>))"

text \<open>
  A decimal reader to stand for \<open>ngx_atoi\<close> in the concrete runs: \<open>NGX_ERROR\<close> for an
  empty string, for a byte that is not a digit and for a value above the largest
  \<open>ngx_int_t\<close>, the value otherwise.
\<close>

definition NGX_MAX_INT_T_VALUE :: int where
  "NGX_MAX_INT_T_VALUE = 9223372036854775807"

fun decimal_from :: "int \<Rightarrow> string \<Rightarrow> int" where
  "decimal_from v [] = v"
| "decimal_from v (c # cs) =
     (if of_char c < (48::nat) \<or> of_char c > (57::nat) then NGX_ERROR
      else if v \<ge> NGX_MAX_INT_T_VALUE div 10
              \<and> (v > NGX_MAX_INT_T_VALUE div 10
                 \<or> int (of_char c) - 48 > NGX_MAX_INT_T_VALUE mod 10)
      then NGX_ERROR
      else decimal_from (v * 10 + (int (of_char c) - 48)) cs)"

definition decimal :: "string \<Rightarrow> ngx_int_t" where
  "decimal s = word_of_int (if s = [] then NGX_ERROR else decimal_from 0 s)"

text \<open>
  The words of a directive as the parser hands them over, from line 1 of nginx.conf, with
  memory to spare.
\<close>

definition directive :: "string list \<Rightarrow> ngx_conf_t" where
  "directive ws =
     \<lparr>args = ws, conf_file_name = ''nginx.conf'', conf_file_line = 1, has_memory = True\<rparr>"

text \<open>
  A started pool whose completion queue holds the tasks 1 and 2, in this order, both
  still marked active as \<open>ngx_thread_pool_task_post\<close> left them.
\<close>

definition two_completed :: "(nat \<times> ngx_event_t) list memory" where
  "two_completed =
     set_out_last_p (Some (Task_next 2))
       (set_task_next 1 (Some 2)
          (set_out_first (Some 1)
             (set_task_active 2 True (set_task_active 1 True (started_memory 8 0 [])))))"

section \<open>Properties of the readiness helpers\<close>

lemmas helper_defs =
  ngx_handle_read_event_def ngx_handle_write_event_def
  ngx_handle_level_read_event_def ngx_handle_level_write_event_def
  ngx_add_event_def ngx_del_event_def
  recording_actions_def recording_add_def recording_del_def

lemmas scenario_consts =
  NGX_USE_LEVEL_EVENT_def NGX_USE_CLEAR_EVENT_def zero_event_def select_platform_def
  idle_reactor_def

text \<open>
  C1 (as amended). On a reactor with LEVEL and without CLEAR, for an event whose
  \<open>active\<close> bit is set, \<open>ngx_handle_write_event\<close> calls \<open>del(WRITE, 0)\<close> exactly when
  \<open>ready\<close> is set, and makes no driver call when \<open>ready\<close> is clear: the \<open>flags\<close>
  argument, \<open>NGX_CLOSE_EVENT\<close> included, plays no part in this branch and is not passed
  to \<open>del\<close>.
\<close>

theorem write_event_level_del:
  assumes "gf AND NGX_USE_CLEAR_EVENT = 0" and "gf AND NGX_USE_LEVEL_EVENT \<noteq> 0"
    and "active wev"
  shows "calls (snd (snd (ngx_handle_write_event recording_actions pf gf wev flags
                            (r\<lparr>calls := []\<rparr>))))
         = (if ready wev then [(Del, wev, NGX_WRITE_EVENT pf, 0)] else [])"
  using assms by (simp add: helper_defs)

theorem write_event_level_del_witness:
  "NGX_USE_LEVEL_EVENT AND NGX_USE_CLEAR_EVENT = 0
   \<and> NGX_USE_LEVEL_EVENT AND NGX_USE_LEVEL_EVENT \<noteq> 0
   \<and> active (zero_event\<lparr>active := True, ready := True\<rparr>)
   \<and> calls (snd (snd (ngx_handle_write_event recording_actions select_platform
        NGX_USE_LEVEL_EVENT (zero_event\<lparr>active := True, ready := True\<rparr>) 1
        (idle_reactor\<lparr>calls := []\<rparr>))))
     = [(Del, zero_event\<lparr>active := True, ready := True\<rparr>, 1, 0)]"
  using write_event_level_del [of NGX_USE_LEVEL_EVENT
      "zero_event\<lparr>active := True, ready := True\<rparr>" select_platform 1 idle_reactor]
  by (simp add: scenario_consts)

text \<open>
  C1 as stated fails: on the select platform with LEVEL only, for an active event that
  is not ready, a call with \<open>flags = NGX_CLOSE_EVENT\<close> makes \<open>ngx_handle_write_event\<close>
  call nothing, where \<open>ngx_handle_read_event\<close> calls \<open>del(READ, NGX_CLOSE_EVENT)\<close>.
\<close>

theorem write_event_close_counterexample:
  "calls (snd (snd (ngx_handle_write_event recording_actions select_platform
      NGX_USE_LEVEL_EVENT (zero_event\<lparr>active := True\<rparr>) (NGX_CLOSE_EVENT select_platform)
      idle_reactor))) = []
   \<and> calls (snd (snd (ngx_handle_read_event recording_actions select_platform
      NGX_USE_LEVEL_EVENT (zero_event\<lparr>active := True\<rparr>) (NGX_CLOSE_EVENT select_platform)
      idle_reactor)))
     = [(Del, zero_event\<lparr>active := True\<rparr>, 0, 1)]"
  by (simp add: helper_defs scenario_consts)

text \<open>
  C2. Whatever the event's \<open>active\<close> and \<open>ready\<close> bits, the capability flags, the
  platform, the \<open>flags\<close> argument and the driver's state (failing or not), every call
  that any of the four helpers makes is made on the caller's event, is an \<open>add\<close> only if
  that event's \<open>active\<close> bit is clear, and a \<open>del\<close> only if it is set.
\<close>

theorem helpers_respect_active:
  "(\<forall>(opr, e, d, f) \<in> set (calls (snd (snd (ngx_handle_read_event recording_actions pf gf ev
        flags (r\<lparr>calls := []\<rparr>))))).
      e = ev \<and> (opr = Add \<longrightarrow> \<not> active ev) \<and> (opr = Del \<longrightarrow> active ev))
   \<and> (\<forall>(opr, e, d, f) \<in> set (calls (snd (snd (ngx_handle_write_event recording_actions pf gf ev
        flags (r\<lparr>calls := []\<rparr>))))).
      e = ev \<and> (opr = Add \<longrightarrow> \<not> active ev) \<and> (opr = Del \<longrightarrow> active ev))
   \<and> (\<forall>(opr, e, d, f) \<in> set (calls (snd (snd (ngx_handle_level_read_event recording_actions pf
        gf ev (r\<lparr>calls := []\<rparr>))))).
      e = ev \<and> (opr = Add \<longrightarrow> \<not> active ev) \<and> (opr = Del \<longrightarrow> active ev))
   \<and> (\<forall>(opr, e, d, f) \<in> set (calls (snd (snd (ngx_handle_level_write_event recording_actions pf
        gf ev (r\<lparr>calls := []\<rparr>))))).
      e = ev \<and> (opr = Add \<longrightarrow> \<not> active ev) \<and> (opr = Del \<longrightarrow> active ev))"
  by (simp add: helper_defs)

theorem helpers_respect_active_witness:
  "(Del, zero_event\<lparr>active := True, ready := True\<rparr>, 0, 0)
     \<in> set (calls (snd (snd (ngx_handle_read_event recording_actions select_platform
          NGX_USE_LEVEL_EVENT (zero_event\<lparr>active := True, ready := True\<rparr>) 0
          (idle_reactor\<lparr>calls := []\<rparr>)))))
   \<and> active (zero_event\<lparr>active := True, ready := True\<rparr>)
   \<and> (Add, zero_event, 1, 0)
     \<in> set (calls (snd (snd (ngx_handle_level_write_event recording_actions select_platform
          NGX_USE_LEVEL_EVENT zero_event (idle_reactor\<lparr>calls := []\<rparr>)))))
   \<and> \<not> active zero_event"
  using helpers_respect_active [of select_platform NGX_USE_LEVEL_EVENT
      "zero_event\<lparr>active := True, ready := True\<rparr>" 0 idle_reactor]
    helpers_respect_active [of select_platform NGX_USE_LEVEL_EVENT zero_event 0 idle_reactor]
  by (simp add: helper_defs scenario_consts NGX_LEVEL_EVENT_def)

text \<open>
  C6. On a reactor with LEVEL and without CLEAR, starting from an event that is neither
  active nor ready: a call (the driver registers the event), then \<open>ready\<close> set and a
  second call, then \<open>ready\<close> cleared and a third call, make exactly three driver calls:
  \<open>add\<close>, \<open>del\<close>, \<open>add\<close>, in that order.
\<close>

theorem level_churn:
  assumes "gf AND NGX_USE_CLEAR_EVENT = 0" and "gf AND NGX_USE_LEVEL_EVENT \<noteq> 0"
    and "\<not> active ev"
  shows "map fst (calls (snd (handle_read_seq recording_actions pf gf flags
                                [False, True, False] ev idle_reactor)))
         = [Add, Del, Add]"
  using assms by (simp add: helper_defs idle_reactor_def NGX_OK_def NGX_ERROR_def)

theorem level_churn_witness:
  "NGX_USE_LEVEL_EVENT AND NGX_USE_CLEAR_EVENT = 0
   \<and> NGX_USE_LEVEL_EVENT AND NGX_USE_LEVEL_EVENT \<noteq> 0
   \<and> \<not> active zero_event
   \<and> map fst (calls (snd (handle_read_seq recording_actions select_platform
        NGX_USE_LEVEL_EVENT 0 [False, True, False] zero_event idle_reactor)))
     = [Add, Del, Add]"
  using level_churn [of NGX_USE_LEVEL_EVENT zero_event select_platform 0]
  by (simp add: scenario_consts)

text \<open>Under CLEAR an active event is left alone, and so is the driver.\<close>

lemma handle_read_seq_clear_active:
  "gf AND NGX_USE_CLEAR_EVENT \<noteq> 0 \<Longrightarrow> active ev \<Longrightarrow>
   snd (handle_read_seq acts pf gf flags bs ev r) = r"
  by (induction bs arbitrary: ev) (simp_all add: ngx_handle_read_event_def)

text \<open>
  C7. On a reactor with CLEAR, starting from an event that is neither active nor ready,
  the first call registers the event (one \<open>add(READ, CLEAR)\<close>), and no later call makes
  any driver call, whatever \<open>ready\<close> is set to before it: after ten calls, as after any
  number, the driver has seen one \<open>add\<close> and no \<open>del\<close>.
\<close>

theorem clear_registers_once:
  assumes "gf AND NGX_USE_CLEAR_EVENT \<noteq> 0" and "\<not> active ev"
  shows "calls (snd (handle_read_seq recording_actions pf gf flags (False # bs) ev idle_reactor))
         = [(Add, ev\<lparr>ready := False\<rparr>, NGX_READ_EVENT pf, NGX_CLEAR_EVENT pf)]"
  using assms
  by (simp add: ngx_handle_read_event_def ngx_add_event_def recording_actions_def
      recording_add_def idle_reactor_def handle_read_seq_clear_active NGX_OK_def NGX_ERROR_def)

theorem clear_registers_once_witness:
  "NGX_USE_CLEAR_EVENT AND NGX_USE_CLEAR_EVENT \<noteq> 0
   \<and> \<not> active zero_event
   \<and> calls (snd (handle_read_seq recording_actions select_platform NGX_USE_CLEAR_EVENT 0
        [False, False, False, False, False, False, False, False, False, False]
        zero_event idle_reactor))
     = [(Add, zero_event, 0, 0)]"
  using clear_registers_once [of NGX_USE_CLEAR_EVENT zero_event select_platform 0
      "[False, False, False, False, False, False, False, False, False]"]
  by (simp add: scenario_consts)

section \<open>Properties of ngx\_thread\_pool\_task\_post\<close>



lemmas run_defs =
  started_memory_def ngx_thread_pool_init_queues_def zero_pool_def zero_task_def
  zero_event_def counting_sem_def



text \<open>
  C10. Posting a task whose \<open>event.active\<close> bit is set returns \<open>NGX_ERROR\<close> with the
  memory it was given (the queues, the semaphore, the task-id counter and the task are
  unchanged), whatever the semaphore would report or do: the check comes before
  \<open>ngx_sem_getvalue\<close> and the overflow test.
\<close>

theorem post_active_task_rejected:
  "active (event (tasks m task)) \<Longrightarrow>
   ngx_thread_pool_task_post so others m task = Some (NGX_ERROR, m)"
  by (simp add: ngx_thread_pool_task_post_def)

theorem post_active_task_rejected_witness:
  "active (event (tasks (set_task_active 7 True (started_memory 4 0 ())) 7))
   \<and> ngx_thread_pool_task_post counting_sem id
        (set_task_active 7 True (started_memory 4 0 ())) 7
     = Some (NGX_ERROR, set_task_active 7 True (started_memory 4 0 ()))"
  using post_active_task_rejected
    [of "set_task_active 7 True (started_memory 4 0 ())" 7 counting_sem id]
  by (simp add: set_task_active_def)

section \<open>Properties of the two enqueues\<close>

lemmas assign_defs =
  set_in_first_def set_in_last_p_def set_out_first_def set_out_last_p_def
  set_task_next_def set_task_id_def set_task_active_def set_task_complete_def

lemma swap_cell_twice [simp]: "swap_cell (swap_cell c) = c"
  by (cases c) simp_all

lemma swap_cell_option_twice [simp]: "map_option swap_cell (map_option swap_cell x) = x"
  by (cases x) simp_all

text \<open>
  With nobody else at work the two enqueues leave the same queue state, from every
  state of the queues.
\<close>

lemma enqueues_agree_unraced:
  assumes "\<not> active (event (tasks m task))"
    and "ngx_sem_getvalue so (sem (tp m)) = (NGX_OK, count)"
    and "\<not> sint (max_queue (tp m)) \<le> sint count"
  shows "posted_state (ngx_thread_pool_task_post so id m task)
         = completed_state (ngx_thread_pool_cycle_complete [] (swap_queues m) task)"
proof (cases "last_p (in_q (tp m))")
  case None
  then show ?thesis using assms
    by (simp add: posted_state_def completed_state_def ngx_thread_pool_task_post_def
        ngx_thread_pool_cycle_complete_def Let_def ngx_atomic_cmp_set_def assign_defs
        swap_queues_def swap_queue_def)
next
  case (Some lp)
  then show ?thesis using assms
    by (cases lp)
      (auto simp: posted_state_def completed_state_def ngx_thread_pool_task_post_def
        ngx_thread_pool_cycle_complete_def Let_def ngx_atomic_cmp_set_def assign_defs
        swap_queues_def swap_queue_def queue_state_def fun_eq_iff split: prod.splits)
qed











section \<open>Properties of the completion drain\<close>

lemma chain_cong:
  "(\<And>t. t \<in> set ts \<Longrightarrow> nx t = nx' t) \<Longrightarrow> chain nx p ts = chain nx' p ts"
  by (induction ts arbitrary: p) auto

text \<open>One turn of the loop, at the last task of the queue and at any earlier one.\<close>

lemma drain_step_last:
  assumes "first (out_q (tp m)) = Some t" and "next_f (tasks m t) = None"
    and "last_p (out_q (tp m)) = Some (Task_next t)"
  shows "ngx_thread_pool_handler noting_handler m
         = Some (noting_handler t (set_task_active t False (set_task_complete t True
              (set_out_last_p (Some Out_first) (set_out_first None m)))))"
  using assms
  apply (subst ngx_thread_pool_handler.simps)
  apply (simp add: Let_def ngx_atomic_cmp_set_def)
  apply (subst ngx_thread_pool_handler.simps)
  apply (simp add: assign_defs noting_handler_def)
  done

lemma drain_step_more:
  assumes "first (out_q (tp m)) = Some t" and "next_f (tasks m t) = Some t'"
  shows "ngx_thread_pool_handler noting_handler m
         = ngx_thread_pool_handler noting_handler
             (noting_handler t (set_task_active t False (set_task_complete t True
                (set_out_first (Some t') m))))"
  using assms
  apply (subst ngx_thread_pool_handler.simps)
  apply (simp add: Let_def assign_defs)
  done

text \<open>
  C4. When the completion queue holds the tasks \<open>ts\<close>, the drain returns, and the
  handlers it has called are, in order, one call for each task of \<open>ts\<close>; each handler
  found its event with \<open>complete\<close> set and \<open>active\<close> clear, the other bits as they
  were. The queue is empty afterwards.
\<close>

theorem drain_calls_each_handler_once:
  "out_queue_holds m ts \<Longrightarrow>
   \<exists>m'. ngx_thread_pool_handler noting_handler m = Some m'
       \<and> user m' = user m
           @ map (\<lambda>t. (t, (event (tasks m t))\<lparr>complete := True, active := False\<rparr>)) ts
       \<and> out_queue_holds m' []"
proof (induction ts arbitrary: m)
  case Nil
  then show ?case
    by (subst ngx_thread_pool_handler.simps) (simp add: out_queue_holds_def)
next
  case (Cons t ts)
  show ?case
  proof (cases ts)
    case Nil
    with Cons.prems have a: "first (out_q (tp m)) = Some t" "next_f (tasks m t) = None"
      "last_p (out_q (tp m)) = Some (Task_next t)"
      by (simp_all add: out_queue_holds_def)
    show ?thesis
      unfolding drain_step_last [OF a]
      by (simp add: Nil out_queue_holds_def assign_defs noting_handler_def)
  next
    case (Cons t' ts')
    with Cons.prems have a: "first (out_q (tp m)) = Some t" "next_f (tasks m t) = Some t'"
      by (simp_all add: out_queue_holds_def)
    let ?m1 = "noting_handler t (set_task_active t False (set_task_complete t True
                (set_out_first (Some t') m)))"
    from Cons.prems Cons have fresh: "t \<notin> set ts" by (simp add: out_queue_holds_def)
    have "chain (\<lambda>x. next_f (tasks ?m1 x)) (Some t') ts
          = chain (\<lambda>x. next_f (tasks m x)) (Some t') ts"
      using fresh by (intro chain_cong) (auto simp: assign_defs noting_handler_def)
    with Cons.prems Cons a have h: "out_queue_holds ?m1 ts"
      by (simp add: out_queue_holds_def assign_defs noting_handler_def)
    from Cons.IH [OF h] obtain m' where
      m': "ngx_thread_pool_handler noting_handler ?m1 = Some m'"
      "user m' = user ?m1
         @ map (\<lambda>t. (t, (event (tasks ?m1 t))\<lparr>complete := True, active := False\<rparr>)) ts"
      "out_queue_holds m' []" by blast
    have same: "map (\<lambda>x. (x, (event (tasks ?m1 x))\<lparr>complete := True, active := False\<rparr>)) ts
        = map (\<lambda>x. (x, (event (tasks m x))\<lparr>complete := True, active := False\<rparr>)) ts"
      using fresh by (intro map_cong) (auto simp: assign_defs noting_handler_def)
    show ?thesis
      unfolding drain_step_more [OF a]
      using m' same by (simp add: assign_defs noting_handler_def)
  qed
qed

theorem drain_calls_each_handler_once_witness:
  "out_queue_holds two_completed [1, 2]
   \<and> (\<exists>m'. ngx_thread_pool_handler noting_handler two_completed = Some m'
          \<and> user m' = [(1, zero_event\<lparr>complete := True\<rparr>), (2, zero_event\<lparr>complete := True\<rparr>)]
          \<and> out_queue_holds m' [])"
proof -
  have holds: "out_queue_holds two_completed [1, 2]"
    by (simp add: out_queue_holds_def two_completed_def assign_defs run_defs)
  have seen: "user two_completed
        @ map (\<lambda>t. (t, (event (tasks two_completed t))\<lparr>complete := True, active := False\<rparr>)) [1, 2]
      = [(1, zero_event\<lparr>complete := True\<rparr>), (2, zero_event\<lparr>complete := True\<rparr>)]"
    by (simp add: two_completed_def assign_defs run_defs)
  show ?thesis
    using drain_calls_each_handler_once [OF holds] holds by (simp only: seen)
qed

section \<open>Properties of the configuration directives\<close>

lemma ngx_strncmp_numeral:
  "ngx_strncmp s1 s2 (numeral k) =
     (if byte_at s1 \<noteq> byte_at s2 then byte_at s1 - byte_at s2
      else if byte_at s1 = 0 then 0
      else ngx_strncmp (tl s1) (tl s2) (pred_numeral k))"
  by (simp add: numeral_eq_Suc)

lemmas directive_defs =
  ngx_thread_pool_def directive_def ngx_thread_pool_add_def ngx_thread_pool_get_def
  ngx_strncmp_numeral byte_at_def decimal_def NGX_MAX_INT_T_VALUE_def NGX_ERROR_def Let_def
  zero_pool_def

text \<open>The pool that \<open>ngx_thread_pool_add\<close> returns is one of the array.\<close>

lemma get_from_bound:
  "ngx_thread_pool_get_from ps k nm = Some i \<Longrightarrow> k \<le> i \<and> i < k + length ps"
  by (induction ps arbitrary: k) (fastforce split: if_splits)+

lemma add_index:
  "ngx_thread_pool_add cf tcf nmo = (Some i, tcf1) \<Longrightarrow> i < length (pools tcf1)"
  by (auto simp: ngx_thread_pool_add_def ngx_thread_pool_get_def Let_def
      split: option.splits if_splits dest: get_from_bound)

text \<open>Words that do not start with a prefix leave the field of that prefix alone.\<close>

lemma values_no_threads:
  "\<forall>v \<in> set vs. ngx_strncmp v ''threads='' 8 \<noteq> 0 \<Longrightarrow>
   threads (snd (ngx_thread_pool_values atoi vs p)) = threads p"
  by (induction vs arbitrary: p) (simp_all add: Let_def)

lemma values_no_max_queue:
  "\<forall>v \<in> set vs. ngx_strncmp v ''max_queue='' 10 \<noteq> 0 \<Longrightarrow>
   max_queue (snd (ngx_thread_pool_values atoi vs p)) = max_queue p"
  by (induction vs arbitrary: p) (simp_all add: Let_def)

text \<open>
  C8 (as amended). For a \<open>thread_pool\<close> directive of three or four words: if no word
  after the name starts with \<open>max_queue=\<close> and the directive is accepted, the pool it
  configured has \<open>max_queue = 65536\<close>; if no word after the name starts with
  \<open>threads=\<close>, the directive returns \<open>NGX_CONF_ERROR\<close>, for every pool name, \<open>default\<close>
  included, and every state of the pool array.
\<close>

theorem thread_pool_directive_defaults:
  assumes "length (args cf) = 3 \<or> length (args cf) = 4"
  shows "((\<forall>v \<in> set (drop 2 (args cf)). ngx_strncmp v ''max_queue='' 10 \<noteq> 0) \<longrightarrow>
          (\<forall>tcf'. ngx_thread_pool atoi cf tcf = Some (NGX_CONF_OK, tcf') \<longrightarrow>
             (\<exists>i < length (pools tcf').
                 fst (ngx_thread_pool_add cf tcf (Some (args cf ! 1))) = Some i
                 \<and> max_queue (pools tcf' ! i) = 65536)))
       \<and> ((\<forall>v \<in> set (drop 2 (args cf)). ngx_strncmp v ''threads='' 8 \<noteq> 0) \<longrightarrow>
          (\<exists>e tcf'. ngx_thread_pool atoi cf tcf = Some (NGX_CONF_ERROR e, tcf')))"
proof (intro conjI impI allI)
  fix tcf'
  assume nomq: "\<forall>v \<in> set (drop 2 (args cf)). ngx_strncmp v ''max_queue='' 10 \<noteq> 0"
    and ok: "ngx_thread_pool atoi cf tcf = Some (NGX_CONF_OK, tcf')"
  obtain r tcf1 where add: "ngx_thread_pool_add cf tcf (Some (args cf ! 1)) = (r, tcf1)"
    by (cases "ngx_thread_pool_add cf tcf (Some (args cf ! 1))")
  with ok assms obtain i where i: "r = Some i"
    by (cases r) (auto simp: ngx_thread_pool_def)
  from add i have bound: "i < length (pools tcf1)" by (auto dest: add_index)
  let ?p0 = "(pools tcf1 ! i)\<lparr>max_queue := 65536\<rparr>"
  obtain ret p where vals: "ngx_thread_pool_values atoi (drop 2 (args cf)) ?p0 = (ret, p)"
    by (cases "ngx_thread_pool_values atoi (drop 2 (args cf)) ?p0")
  from values_no_max_queue [OF nomq, of atoi ?p0] vals have mq: "max_queue p = 65536" by simp
  from ok assms add i vals have "tcf' = tcf1\<lparr>pools := (pools tcf1)[i := p]\<rparr>"
    by (cases ret) (auto simp: ngx_thread_pool_def split: if_splits)
  with bound mq add i
  show "\<exists>i < length (pools tcf').
          fst (ngx_thread_pool_add cf tcf (Some (args cf ! 1))) = Some i
          \<and> max_queue (pools tcf' ! i) = 65536"
    by auto
next
  assume noth: "\<forall>v \<in> set (drop 2 (args cf)). ngx_strncmp v ''threads='' 8 \<noteq> 0"
  obtain r tcf1 where add: "ngx_thread_pool_add cf tcf (Some (args cf ! 1)) = (r, tcf1)"
    by (cases "ngx_thread_pool_add cf tcf (Some (args cf ! 1))")
  show "\<exists>e tcf'. ngx_thread_pool atoi cf tcf = Some (NGX_CONF_ERROR e, tcf')"
  proof (cases r)
    case None
    with add assms show ?thesis by (auto simp: ngx_thread_pool_def)
  next
    case (Some i)
    let ?p0 = "(pools tcf1 ! i)\<lparr>max_queue := 65536\<rparr>"
    obtain ret p where vals: "ngx_thread_pool_values atoi (drop 2 (args cf)) ?p0 = (ret, p)"
      by (cases "ngx_thread_pool_values atoi (drop 2 (args cf)) ?p0")
    from values_no_threads [OF noth, of atoi ?p0] vals
    have th: "threads p = threads (pools tcf1 ! i)" by simp
    show ?thesis
      using add assms Some vals th
      by (cases ret) (auto simp: ngx_thread_pool_def)
  qed
qed

theorem thread_pool_directive_defaults_witness:
  "length (args (directive [''thread_pool'', ''one'', ''threads=4''])) = 3
   \<and> drop 2 (args (directive [''thread_pool'', ''one'', ''threads=4''])) = [''threads=4'']
   \<and> ngx_strncmp ''threads=4'' ''max_queue='' 10 \<noteq> 0
   \<and> ngx_thread_pool decimal (directive [''thread_pool'', ''one'', ''threads=4''])
        \<lparr>pools = []\<rparr>
       = Some (NGX_CONF_OK,
           \<lparr>pools = [zero_pool\<lparr>name := ''one'', threads := 4, max_queue := 65536,
                        file_f := ''nginx.conf'', line_f := 1\<rparr>]\<rparr>)
   \<and> fst (ngx_thread_pool_add (directive [''thread_pool'', ''one'', ''threads=4''])
            \<lparr>pools = []\<rparr> (Some ''one'')) = Some 0
   \<and> max_queue ([zero_pool\<lparr>name := ''one'', threads := 4, max_queue := 65536,
                   file_f := ''nginx.conf'', line_f := 1\<rparr>] ! 0) = 65536
   \<and> length (args (directive [''thread_pool'', ''one'', ''max_queue=5''])) = 3
   \<and> drop 2 (args (directive [''thread_pool'', ''one'', ''max_queue=5''])) = [''max_queue=5'']
   \<and> ngx_strncmp ''max_queue=5'' ''threads='' 8 \<noteq> 0
   \<and> (\<exists>e tcf'. ngx_thread_pool decimal (directive [''thread_pool'', ''one'', ''max_queue=5''])
                   \<lparr>pools = []\<rparr> = Some (NGX_CONF_ERROR e, tcf'))"
proof -
  have run: "ngx_thread_pool decimal (directive [''thread_pool'', ''one'', ''threads=4''])
               \<lparr>pools = []\<rparr>
       = Some (NGX_CONF_OK,
           \<lparr>pools = [zero_pool\<lparr>name := ''one'', threads := 4, max_queue := 65536,
                        file_f := ''nginx.conf'', line_f := 1\<rparr>]\<rparr>)"
    by (simp add: directive_defs)
  have added: "fst (ngx_thread_pool_add (directive [''thread_pool'', ''one'', ''threads=4''])
            \<lparr>pools = []\<rparr> (Some ''one'')) = Some 0"
    by (simp add: directive_def ngx_thread_pool_add_def ngx_thread_pool_get_def)
  show ?thesis
    using thread_pool_directive_defaults
        [of "directive [''thread_pool'', ''one'', ''threads=4'']" decimal "\<lparr>pools = []\<rparr>"]
      thread_pool_directive_defaults
        [of "directive [''thread_pool'', ''one'', ''max_queue=5'']" decimal "\<lparr>pools = []\<rparr>"]
    by (simp add: run added) (simp add: directive_def ngx_strncmp_numeral byte_at_def)
qed

text \<open>
  C8 as stated fails for the name \<open>default\<close>: \<open>thread_pool default max_queue=5;\<close>
  in an empty configuration is refused with "must have threads parameter".
\<close>

theorem thread_pool_default_counterexample:
  "ngx_thread_pool decimal (directive [''thread_pool'', ''default'', ''max_queue=5''])
     \<lparr>pools = []\<rparr>
   = Some (NGX_CONF_ERROR must_have_threads_parameter,
           \<lparr>pools = [zero_pool\<lparr>name := ''default'', max_queue := 5,
                        file_f := ''nginx.conf'', line_f := 1\<rparr>]\<rparr>)"
  by (simp add: directive_defs)

text \<open>
  The test of \<open>ngx_thread_pool_init_conf\<close> on a pool name, equal length and
  \<open>ngx_strncmp\<close> zero, holds exactly for the name \<open>default\<close>.
\<close>

lemma byte_at_Cons: "byte_at (c # cs) = of_char c"
  by (simp add: byte_at_def)

lemma strncmp_same_length:
  "length s = length t \<Longrightarrow> \<forall>c \<in> set t. (of_char c :: int) \<noteq> 0 \<Longrightarrow>
   (ngx_strncmp s t (length t) = 0) = (s = t)"
proof (induction t arbitrary: s)
  case Nil
  then show ?case by simp
next
  case (Cons b t)
  then obtain a s' where s: "s = a # s'" by (cases s) auto
  from Cons.prems s have len: "length s' = length t" by simp
  from Cons.prems have nz: "\<forall>c \<in> set t. (of_char c :: int) \<noteq> 0" and b: "(of_char b :: int) \<noteq> 0"
    by simp_all
  note IH = Cons.IH [OF len nz]
  show ?case
  proof (cases "a = b")
    case True
    with b IH show ?thesis by (simp add: s byte_at_Cons)
  next
    case False
    then have "(of_char a :: int) \<noteq> of_char b" by simp
    with False show ?thesis by (simp add: s byte_at_Cons)
  qed
qed


lemma default_test:
  "(length nm = length ngx_thread_pool_default
    \<and> ngx_strncmp nm ngx_thread_pool_default (length ngx_thread_pool_default) = 0)
   = (nm = ngx_thread_pool_default)"
proof (cases "length nm = length ngx_thread_pool_default")
  case True
  have nz: "\<forall>c \<in> set ngx_thread_pool_default. (of_char c :: int) \<noteq> 0"
    by (simp add: ngx_thread_pool_default_def)
  from strncmp_same_length [OF True nz] True show ?thesis by simp
next
  case False
  then have "nm \<noteq> ngx_thread_pool_default" by auto
  with False show ?thesis by simp
qed

lemma init_conf_loop_step:
  "ngx_thread_pool_init_conf_loop (p # ps) =
     (if threads p \<noteq> 0 then
        (case ngx_thread_pool_init_conf_loop ps of (ret, ps') \<Rightarrow> (ret, p # ps'))
      else if name p = ngx_thread_pool_default then
        (case ngx_thread_pool_init_conf_loop ps of
           (ret, ps') \<Rightarrow> (ret, p\<lparr>threads := 32, max_queue := 65536\<rparr> # ps'))
      else (NGX_CONF_ERROR unknown_thread_pool, p # ps))"
  by (simp only: ngx_thread_pool_init_conf_loop.simps default_test)


lemma init_conf_loop_ok:
  "\<forall>p \<in> set ps. threads p = 0 \<longrightarrow> name p = ngx_thread_pool_default \<Longrightarrow>
   ngx_thread_pool_init_conf_loop ps
   = (NGX_CONF_OK,
      map (\<lambda>p. if threads p = 0 then p\<lparr>threads := 32, max_queue := 65536\<rparr> else p) ps)"
proof (induction ps)
  case Nil
  then show ?case by simp
next
  case (Cons q ps)
  then have IH: "ngx_thread_pool_init_conf_loop ps
     = (NGX_CONF_OK,
        map (\<lambda>p. if threads p = 0 then p\<lparr>threads := 32, max_queue := 65536\<rparr> else p) ps)"
    by simp
  from Cons.prems have q: "threads q = 0 \<longrightarrow> name q = ngx_thread_pool_default" by simp
  show ?case
    unfolding init_conf_loop_step IH using q by simp
qed

lemma init_conf_loop_unknown:
  "\<exists>p \<in> set ps. threads p = 0 \<and> name p \<noteq> ngx_thread_pool_default \<Longrightarrow>
   fst (ngx_thread_pool_init_conf_loop ps) = NGX_CONF_ERROR unknown_thread_pool"
proof (induction ps)
  case Nil
  then show ?case by simp
next
  case (Cons q ps)
  show ?case
  proof (cases "threads q = 0 \<and> name q \<noteq> ngx_thread_pool_default")
    case True
    then show ?thesis unfolding init_conf_loop_step by simp
  next
    case False
    with Cons.prems have "\<exists>p \<in> set ps. threads p = 0 \<and> name p \<noteq> ngx_thread_pool_default"
      by auto
    from Cons.IH [OF this] have rest:
      "fst (ngx_thread_pool_init_conf_loop ps) = NGX_CONF_ERROR unknown_thread_pool" .
    obtain ret ps' where r: "ngx_thread_pool_init_conf_loop ps = (ret, ps')"
      by (cases "ngx_thread_pool_init_conf_loop ps")
    with rest have "ret = NGX_CONF_ERROR unknown_thread_pool" by simp
    with False r show ?thesis unfolding init_conf_loop_step by auto
  qed
qed

text \<open>
  C9. If every pool that still has \<open>threads = 0\<close> is named \<open>default\<close>, finalization
  returns \<open>NGX_CONF_OK\<close> and has given each of them \<open>threads = 32\<close> and
  \<open>max_queue = 65536\<close>, leaving the other pools as they were. If some pool that still
  has \<open>threads = 0\<close> has another name, finalization returns \<open>NGX_CONF_ERROR\<close>, logging
  "unknown thread pool".
\<close>

theorem init_conf_default_and_unknown:
  "((\<forall>p \<in> set (pools tcf). threads p = 0 \<longrightarrow> name p = ''default'') \<longrightarrow>
      ngx_thread_pool_init_conf tcf
      = (NGX_CONF_OK,
         tcf\<lparr>pools := map (\<lambda>p. if threads p = 0
                                then p\<lparr>threads := 32, max_queue := 65536\<rparr> else p)
                          (pools tcf)\<rparr>))
   \<and> ((\<exists>p \<in> set (pools tcf). threads p = 0 \<and> name p \<noteq> ''default'') \<longrightarrow>
      fst (ngx_thread_pool_init_conf tcf) = NGX_CONF_ERROR unknown_thread_pool)"
  unfolding ngx_thread_pool_default_def [symmetric]
proof (intro conjI impI)
  assume "\<forall>p \<in> set (pools tcf). threads p = 0 \<longrightarrow> name p = ngx_thread_pool_default"
  from init_conf_loop_ok [OF this]
  show "ngx_thread_pool_init_conf tcf
      = (NGX_CONF_OK,
         tcf\<lparr>pools := map (\<lambda>p. if threads p = 0
                                then p\<lparr>threads := 32, max_queue := 65536\<rparr> else p)
                          (pools tcf)\<rparr>)"
    by (simp add: ngx_thread_pool_init_conf_def)
next
  assume "\<exists>p \<in> set (pools tcf). threads p = 0 \<and> name p \<noteq> ngx_thread_pool_default"
  from init_conf_loop_unknown [OF this]
  show "fst (ngx_thread_pool_init_conf tcf) = NGX_CONF_ERROR unknown_thread_pool"
    by (cases "ngx_thread_pool_init_conf_loop (pools tcf)")
       (simp add: ngx_thread_pool_init_conf_def)
qed


theorem init_conf_default_and_unknown_witness:
  "name (zero_pool\<lparr>name := ''default''\<rparr>) = ''default''
   \<and> threads (zero_pool\<lparr>name := ''one'', threads := 4\<rparr>) \<noteq> 0
   \<and> ngx_thread_pool_init_conf
        \<lparr>pools = [zero_pool\<lparr>name := ''default''\<rparr>, zero_pool\<lparr>name := ''one'', threads := 4\<rparr>]\<rparr>
     = (NGX_CONF_OK,
        \<lparr>pools = [zero_pool\<lparr>name := ''default'', threads := 32, max_queue := 65536\<rparr>,
                  zero_pool\<lparr>name := ''one'', threads := 4\<rparr>]\<rparr>)
   \<and> threads (zero_pool\<lparr>name := ''other''\<rparr>) = 0
   \<and> name (zero_pool\<lparr>name := ''other''\<rparr>) \<noteq> ''default''
   \<and> fst (ngx_thread_pool_init_conf \<lparr>pools = [zero_pool\<lparr>name := ''other''\<rparr>]\<rparr>)
     = NGX_CONF_ERROR unknown_thread_pool"
  using init_conf_default_and_unknown
      [of "\<lparr>pools = [zero_pool\<lparr>name := ''default''\<rparr>,
                     zero_pool\<lparr>name := ''one'', threads := 4\<rparr>]\<rparr>"]
    init_conf_default_and_unknown [of "\<lparr>pools = [zero_pool\<lparr>name := ''other''\<rparr>]\<rparr>"]
  by (simp add: zero_pool_def)

end
